theory Spec2Isabelle
  imports Complex_Main
begin

section \<open>Python values\<close>

text \<open>
  The program is \<^verbatim>\<open>dezoomify.py\<close> (Python 3). Its integers are unbounded and are
  modelled by \<^typ>\<open>int\<close>. Its floats arise only from dividing an integer by an integer or by
  a power of two; such a quotient is modelled by the exact rational (\<^typ>\<open>rat\<close>), which is
  what the float holds whenever the integers involved are below \<open>2^53\<close>. \<open>floor\<close>,
  \<open>ceil\<close> and \<open>int\<close> then return the same integers on the float and on the rational.
\<close>

datatype severity = WARNING | ERROR

datatype message =
    WidthNotFound
  | HeightNotFound
  | TileSizeNotFound
  | ZoomLevelNotAvailable int
  | TileDoesNotExist string int int
  | ImageIsMissingTiles int int

type_synonym log_record = "severity \<times> message"

datatype error =
    ZeroDivisionError
  | ValueError
  | IndexError
  | SystemExit message

text \<open>\<^verbatim>\<open>pow(2, n)\<close> and \<^verbatim>\<open>2 ** n\<close> for an integer \<open>n\<close>: an integer when
  \<open>n \<ge> 0\<close>, the float \<open>1 / 2^(-n)\<close> otherwise.\<close>

definition pow2 :: "int \<Rightarrow> rat" where
  "pow2 n = (if 0 \<le> n then 2 ^ nat n else 1 / 2 ^ nat (- n))"

text \<open>\<^verbatim>\<open>int(x)\<close> on a float truncates towards zero; \<^verbatim>\<open>'%d' % x\<close> prints the same
  integer.\<close>

definition py_int :: "rat \<Rightarrow> int" where
  "py_int x = (if 0 \<le> x then \<lfloor>x\<rfloor> else \<lceil>x\<rceil>)"

text \<open>\<^verbatim>\<open>xs[i]\<close>: a negative index counts from the end, an index out of range raises.\<close>

definition py_index :: "'a list \<Rightarrow> int \<Rightarrow> error + 'a" where
  "py_index xs i =
     (if 0 \<le> i \<and> i < int (length xs) then Inr (xs ! nat i)
      else if i < 0 \<and> - int (length xs) \<le> i then Inr (xs ! nat (int (length xs) + i))
      else Inl IndexError)"

text \<open>\<^verbatim>\<open>str(i)\<close> and \<^verbatim>\<open>'{}'.format(i)\<close> for an integer.\<close>

fun digits :: "nat \<Rightarrow> string" where
  "digits n =
     (if n < 10 then [char_of (48 + n)]
      else digits (n div 10) @ [char_of (48 + n mod 10)])"

definition str_int :: "int \<Rightarrow> string" where
  "str_int i = (if i < 0 then CHR ''-'' # digits (nat (- i)) else digits (nat i))"

section \<open>The untiler object\<close>

text \<open>Where the tiles of the current image are kept: the directory derived from the output
  name (\<^verbatim>\<open>-s\<close>), or a fresh temporary directory.\<close>

datatype directory = NoDirectory | StoreRoot string | TempDir

record untiler =
  ext :: string
  store :: bool
  out :: string
  nodownload :: bool
  nthreads :: int
  imageDir :: string
  tileDir :: directory
  maxWidth :: int
  maxHeight :: int
  tileSize :: int
  levels :: "(int \<times> int) list"
  maxZoom :: int
  zoomLevel :: int
  width :: rat
  height :: rat
  maxxTiles :: int
  maxyTiles :: int
  xTiles :: int
  yTiles :: int
  log_records :: "log_record list"

text \<open>Only the records that the default log level lets through (WARNING and above) are
  modelled; the \<^verbatim>\<open>info\<close> and \<^verbatim>\<open>debug\<close> calls change no state.\<close>

definition log_warning :: "message \<Rightarrow> untiler \<Rightarrow> untiler" where
  "log_warning m self = self\<lparr>log_records := log_records self @ [(WARNING, m)]\<rparr>"

section \<open>Pyramid geometry\<close>

subsection \<open>\<^verbatim>\<open>getZoomLevels\<close>\<close>

text \<open>
  The \<^verbatim>\<open>while True\<close> loop of \<^verbatim>\<open>getZoomLevels\<close>, with the list built so far as
  accumulator. The loop has no bound of its own, so the model is a partial function:
  \<open>None\<close> is "never leaves the loop". \<^verbatim>\<open>locWidth / float(self.tileSize)\<close> raises
  when the tile size is zero.
\<close>

partial_function (option) getZoomLevels_loop ::
  "int \<Rightarrow> int \<Rightarrow> int \<Rightarrow> (int \<times> int) list \<Rightarrow> (error + (int \<times> int) list) option" where
  "getZoomLevels_loop tSize locWidth locHeight lvls =
     (if tSize = 0 then Some (Inl ZeroDivisionError)
      else
        let widthInTiles = \<lceil>of_int locWidth / (of_int tSize :: rat)\<rceil>;
            heightInTiles = \<lceil>of_int locHeight / (of_int tSize :: rat)\<rceil>;
            lvls' = lvls @ [(widthInTiles, heightInTiles)]
        in if widthInTiles = 1 \<and> heightInTiles = 1 then Some (Inr lvls')
           else getZoomLevels_loop tSize
                  (py_int (of_int locWidth / 2)) (py_int (of_int locHeight / 2)) lvls')"

declare getZoomLevels_loop.simps [code]

definition getZoomLevels :: "untiler \<Rightarrow> (error + untiler) option" where
  "getZoomLevels self =
     (case getZoomLevels_loop (tileSize self) (maxWidth self) (maxHeight self) [] of
        None \<Rightarrow> None
      | Some (Inl e) \<Rightarrow> Some (Inl e)
      | Some (Inr lvls) \<Rightarrow> Some (Inr (self\<lparr>levels := rev lvls\<rparr>)))"

subsection \<open>\<^verbatim>\<open>getProperties\<close>\<close>

text \<open>The three regular-expression searches on \<^verbatim>\<open>ImageProperties.xml\<close>: each finds a
  run of decimal digits or nothing.\<close>

record image_properties =
  WIDTH :: "nat option"
  HEIGHT :: "nat option"
  TILESIZE :: "nat option"

text \<open>The \<^verbatim>\<open>-z\<close> argument: the default \<^verbatim>\<open>False\<close> and the empty string are both
  falsy (\<open>NotGiven\<close>); any other string goes through \<^verbatim>\<open>int(...)\<close>, which yields an
  integer (\<open>Given\<close>) or raises (\<open>NotANumber\<close>).\<close>

datatype zoom_arg = NotGiven | Given int | NotANumber

text \<open>Lines 508 to 520: the zoom level of the run.\<close>

definition requested_zoomLevel :: "zoom_arg \<Rightarrow> untiler \<Rightarrow> error + untiler" where
  "requested_zoomLevel arg self =
     (case arg of
        NotGiven \<Rightarrow> Inr (self\<lparr>zoomLevel := maxZoom self - 1\<rparr>)
      | NotANumber \<Rightarrow> Inl ValueError
      | Given z \<Rightarrow>
          if z < maxZoom self \<and> z \<ge> 0 then Inr (self\<lparr>zoomLevel := z\<rparr>)
          else Inr (log_warning (ZoomLevelNotAvailable (maxZoom self - 1))
                      (self\<lparr>zoomLevel := maxZoom self - 1\<rparr>)))"

text \<open>Lines 522 to 531: the size and the tile counts at that level. \<^verbatim>\<open>/\<close> is true
  division: the results are floats.\<close>

definition level_size :: "untiler \<Rightarrow> error + untiler" where
  "level_size self =
     (let self = self\<lparr>width := of_int (maxWidth self) / pow2 (maxZoom self - zoomLevel self - 1)\<rparr>;
          self = self\<lparr>height := of_int (maxHeight self) / pow2 (maxZoom self - zoomLevel self - 1)\<rparr>
      in case py_index (levels self) (- 1) of
           Inl e \<Rightarrow> Inl e
         | Inr finest \<Rightarrow>
             (case py_index (levels self) (zoomLevel self) of
                Inl e \<Rightarrow> Inl e
              | Inr cur \<Rightarrow>
                  Inr (self\<lparr>maxxTiles := fst finest, maxyTiles := snd finest,
                            xTiles := fst cur, yTiles := snd cur\<rparr>)))"

definition getProperties ::
  "untiler \<Rightarrow> image_properties \<Rightarrow> zoom_arg \<Rightarrow> (error + untiler) option" where
  "getProperties self content arg =
     (case WIDTH content of
        None \<Rightarrow> Some (Inl (SystemExit WidthNotFound))
      | Some w \<Rightarrow>
     (case HEIGHT content of
        None \<Rightarrow> Some (Inl (SystemExit HeightNotFound))
      | Some h \<Rightarrow>
     (case TILESIZE content of
        None \<Rightarrow> Some (Inl (SystemExit TileSizeNotFound))
      | Some t \<Rightarrow>
     (case getZoomLevels (self\<lparr>maxWidth := int w, maxHeight := int h, tileSize := int t\<rparr>) of
        None \<Rightarrow> None
      | Some (Inl e) \<Rightarrow> Some (Inl e)
      | Some (Inr self1) \<Rightarrow>
     (case requested_zoomLevel arg (self1\<lparr>maxZoom := int (length (levels self1))\<rparr>) of
        Inl e \<Rightarrow> Some (Inl e)
      | Inr self2 \<Rightarrow> Some (level_size self2))))))"

subsection \<open>\<^verbatim>\<open>getTileIndex\<close> and \<^verbatim>\<open>getImageTileURL\<close>\<close>

text \<open>The index starts at \<^verbatim>\<open>x + y * ...\<close> and the \<^verbatim>\<open>for i in range(1, level + 1)\<close> loop
  adds one product per \<open>i\<close>. Each term divides by \<^verbatim>\<open>self.tileSize\<close>, which raises when
  that is zero.\<close>

definition getTileIndex :: "untiler \<Rightarrow> int \<Rightarrow> int \<Rightarrow> int \<Rightarrow> error + int" where
  "getTileIndex self level x y =
     (if tileSize self = 0 then Inl ZeroDivisionError
      else Inr (fold
        (\<lambda>i index. index +
           \<lceil>of_int \<lfloor>width self / pow2 (maxZoom self - i)\<rfloor> / (of_int (tileSize self) :: rat)\<rceil> *
           \<lceil>of_int \<lfloor>height self / pow2 (maxZoom self - i)\<rfloor> / (of_int (tileSize self) :: rat)\<rceil>)
        [1..level]
        (x + y * \<lceil>of_int \<lfloor>width self / pow2 (maxZoom self - level - 1)\<rfloor>
                    / (of_int (tileSize self) :: rat)\<rceil>)))"

text \<open>\<^verbatim>\<open>'/'.join(work)\<close>.\<close>

fun join_slash :: "string list \<Rightarrow> string" where
  "join_slash [] = []"
| "join_slash [w] = w"
| "join_slash (w # ws) = w @ ''/'' @ join_slash ws"

text \<open>\<^verbatim>\<open>urlConcat(*args)\<close>: a single argument is returned as it is; otherwise every
  backslash becomes a slash, and every argument but the first loses one leading slash.\<close>

definition urlConcat :: "string list \<Rightarrow> string" where
  "urlConcat args =
     (if length args = 0 then []
      else if length args = 1 then hd args
      else
        let args' = map (map (\<lambda>c. if c = CHR 0x5C then CHR ''/'' else c)) args;
            work = [hd args'] @
              map (\<lambda>arg. if take 1 arg = ''/'' then drop 1 arg else arg) (tl args')
        in join_slash work)"

text \<open>Lines 546 and 547 of \<^verbatim>\<open>getImageTileURL\<close>: the tile group of a tile of the current
  zoom level.\<close>

definition tileGroup :: "untiler \<Rightarrow> int \<Rightarrow> int \<Rightarrow> error + int" where
  "tileGroup self col row =
     (case getTileIndex self (zoomLevel self) col row of
        Inl e \<Rightarrow> Inl e
      | Inr tileIndex \<Rightarrow>
          if tileSize self = 0 then Inl ZeroDivisionError
          else Inr (tileIndex div tileSize self))"

definition getImageTileURL :: "untiler \<Rightarrow> int \<Rightarrow> int \<Rightarrow> error + string" where
  "getImageTileURL self col row =
     (case tileGroup self col row of
        Inl e \<Rightarrow> Inl e
      | Inr tGroup \<Rightarrow>
          Inr (urlConcat [imageDir self, ''TileGroup'' @ str_int tGroup,
                 str_int (zoomLevel self) @ ''-'' @ str_int col @ ''-'' @ str_int row
                 @ ''.'' @ ext self]))"

section \<open>Downloading and joining: \<^verbatim>\<open>getImage\<close>\<close>

subsection \<open>Files and the download threads\<close>

datatype path =
    TmpImg nat
  | LocalTile directory int int string
  | OutputFile string

definition localTileName :: "untiler \<Rightarrow> int \<Rightarrow> int \<Rightarrow> path" where
  "localTileName self col row = LocalTile (tileDir self) col row (ext self)"

text \<open>
  What \<^verbatim>\<open>downloadUrl(url, destination)\<close> does inside the \<^verbatim>\<open>try\<close> of a download
  thread: it returns, or it raises \<^verbatim>\<open>urllib.error.HTTPError\<close>, or
  \<^verbatim>\<open>KeyboardInterrupt\<close>, or any other exception (\<^verbatim>\<open>URLError\<close>, a socket or file
  error), for which the thread has no handler. The network is a parameter of the model.
\<close>

datatype fetch_result = Fetched | HTTPError | KeyboardInterrupt | OtherException

type_synonym network = "string \<Rightarrow> fetch_result"

text \<open>How a download thread ends: \<^verbatim>\<open>queue.Empty\<close> makes it return, \<^verbatim>\<open>exit()\<close> ends
  it, an exception without a handler ends it.\<close>

datatype thread_end = Returned | Exited | Raised

record queues =
  downloadQueue :: "(string \<times> int \<times> int) list"
  joinQueue :: "(int \<times> int) list"
  thread_log :: "log_record list"

text \<open>One run of \<^verbatim>\<open>downloader()\<close>: each round of its \<^verbatim>\<open>while True\<close> takes the first
  task of the queue.\<close>

fun downloader :: "network \<Rightarrow> (string \<times> int \<times> int) list \<Rightarrow> queues \<Rightarrow> thread_end \<times> queues" where
  "downloader net [] q = (Returned, q\<lparr>downloadQueue := []\<rparr>)"
| "downloader net ((url, col, row) # rest) q =
     (case net url of
        Fetched \<Rightarrow> downloader net rest (q\<lparr>joinQueue := joinQueue q @ [(col, row)]\<rparr>)
      | HTTPError \<Rightarrow>
          downloader net rest
            (q\<lparr>thread_log := thread_log q @ [(WARNING, TileDoesNotExist url row col)]\<rparr>)
      | KeyboardInterrupt \<Rightarrow> (Exited, q\<lparr>downloadQueue := rest\<rparr>)
      | OtherException \<Rightarrow> (Raised, q\<lparr>downloadQueue := rest\<rparr>))"

text \<open>
  The \<^verbatim>\<open>nthreads\<close> download threads share the two queues. They take tasks in queue
  order, and a thread stops taking tasks only when the queue is empty or when it has
  ended; so which tasks are taken, and what becomes of each, does not depend on the
  interleaving. The model runs the threads one after the other, which is one of the
  interleavings; the order of \<open>joinQueue\<close> is the only thing another one changes, and
  the theorems on joining hold for every order of arrival.
\<close>

fun start_threads :: "nat \<Rightarrow> network \<Rightarrow> queues \<Rightarrow> queues" where
  "start_threads 0 net q = q"
| "start_threads (Suc n) net q =
     start_threads n net (snd (downloader net (downloadQueue q) q))"

subsection \<open>The calls of jpegtran\<close>

text \<open>
  The three command lines that \<^verbatim>\<open>getImage\<close> passes to \<^verbatim>\<open>subprocess.call\<close>:
  \<^verbatim>\<open>-crop WxH+0+0 -outfile OUT IN\<close>, \<^verbatim>\<open>-drop +X+Y TILE -outfile OUT IN\<close> and
  \<^verbatim>\<open>-optimize -outfile OUT IN\<close>, with the arguments in the order of the command line.
  \<^verbatim>\<open>subprocess.call\<close> returns the exit status of the process; the status may depend
  on the command and on everything run before it, so the tool is a parameter of the model
  that maps the earlier commands and the command to a status. (\<^verbatim>\<open>__init__\<close> has
  checked that the executable exists and may be executed.)
\<close>

datatype command =
    Crop int int path path
  | Drop int int path path path
  | Optimize path path

type_synonym tool = "command list \<Rightarrow> command \<Rightarrow> int"

record joiner =
  activeTmp :: nat
  numJoined :: int
  calls :: "(command \<times> int) list"

definition subprocess_call :: "tool \<Rightarrow> command \<Rightarrow> joiner \<Rightarrow> joiner" where
  "subprocess_call jpegtran cmd j =
     j\<lparr>calls := calls j @ [(cmd, jpegtran (map fst (calls j)) cmd)]\<rparr>"

text \<open>The body of the joining loop for one tile taken from \<open>joinQueue\<close>.\<close>

definition join_tile :: "tool \<Rightarrow> untiler \<Rightarrow> int \<times> int \<Rightarrow> joiner \<Rightarrow> joiner" where
  "join_tile jpegtran self tile j =
     (let col = fst tile; row = snd tile;
          j = (if numJoined j = 0
               then subprocess_call jpegtran
                      (Crop (py_int (width self)) (py_int (height self))
                         (TmpImg (activeTmp j)) (localTileName self col row)) j
               else j);
          j = subprocess_call jpegtran
                (Drop (col * tileSize self) (row * tileSize self) (localTileName self col row)
                   (TmpImg ((activeTmp j + 1) mod 2)) (TmpImg (activeTmp j))) j
      in j\<lparr>activeTmp := (activeTmp j + 1) mod 2, numJoined := numJoined j + 1\<rparr>)"

text \<open>The loop takes the tiles in the order in which they were put on the queue.\<close>

definition join_tiles :: "tool \<Rightarrow> untiler \<Rightarrow> (int \<times> int) list \<Rightarrow> joiner" where
  "join_tiles jpegtran self arrived =
     fold (join_tile jpegtran self) arrived \<lparr>activeTmp = 0, numJoined = 0, calls = []\<rparr>"

subsection \<open>\<^verbatim>\<open>getImage\<close>\<close>

datatype fs_action = Unlink path | Rmtree directory

record image_run =
  left_in_queue :: "(string \<times> int \<times> int) list"
  joined :: "(int \<times> int) list"
  jpegtran_calls :: "(command \<times> int) list"
  run_numJoined :: int
  numMissing :: int
  run_log :: "log_record list"
  cleanup :: "fs_action list"

text \<open>\<^verbatim>\<open>for col in range(self.xTiles): for row in range(self.yTiles)\<close>.\<close>

definition tile_cells :: "untiler \<Rightarrow> (int \<times> int) list" where
  "tile_cells self =
     concat (map (\<lambda>col. map (\<lambda>row. (col, row)) [0..yTiles self - 1]) [0..xTiles self - 1])"

fun download_tasks :: "untiler \<Rightarrow> (int \<times> int) list \<Rightarrow> error + (string \<times> int \<times> int) list" where
  "download_tasks self [] = Inr []"
| "download_tasks self ((col, row) # cells) =
     (case getImageTileURL self col row of
        Inl e \<Rightarrow> Inl e
      | Inr url \<Rightarrow>
          (case download_tasks self cells of
             Inl e \<Rightarrow> Inl e
           | Inr tasks \<Rightarrow> Inr ((url, col, row) # tasks)))"

text \<open>
  \<^verbatim>\<open>getImage(outputDestination)\<close>: fill the queues, start the threads, join what
  arrives, report the missing tiles, run the last pass, and clean up in the
  \<^verbatim>\<open>finally\<close> block. The result also holds the log records written on the way; the
  records of the threads are put before those of the main thread.
\<close>

definition getImage :: "untiler \<Rightarrow> network \<Rightarrow> tool \<Rightarrow> string \<Rightarrow> error + image_run" where
  "getImage self net jpegtran outputDestination =
     (case (if nodownload self then Inr [] else download_tasks self (tile_cells self)) of
        Inl e \<Rightarrow> Inl e
      | Inr tasks \<Rightarrow>
          let q0 = \<lparr>downloadQueue = tasks,
                    joinQueue = (if nodownload self then tile_cells self else []),
                    thread_log = []\<rparr>;
              q = (if \<not> nodownload self then start_threads (nat (nthreads self)) net q0 else q0);
              j = join_tiles jpegtran self (joinQueue q);
              missing = xTiles self * yTiles self - numJoined j;
              main_log = (if missing > 0
                          then [(WARNING, ImageIsMissingTiles missing (zoomLevel self))]
                          else []);
              j = subprocess_call jpegtran
                    (Optimize (OutputFile outputDestination) (TmpImg (activeTmp j))) j
          in Inr \<lparr>left_in_queue = downloadQueue q,
                   joined = joinQueue q,
                   jpegtran_calls = calls j,
                   run_numJoined = numJoined j,
                   numMissing = missing,
                   run_log = thread_log q @ main_log,
                   cleanup = [Unlink (TmpImg 0), Unlink (TmpImg 1)] @
                     (if \<not> store self then [Rmtree (tileDir self)] else [])\<rparr>)"

subsection \<open>\<^verbatim>\<open>__init__\<close> and the work on one image\<close>

text \<open>The command line, after \<^verbatim>\<open>argparse\<close> and the \<^verbatim>\<open>int(...)\<close> conversions.\<close>

record args =
  args_out :: string
  args_store :: bool
  args_nodownload :: bool
  args_nthreads :: int
  args_zoomLevel :: zoom_arg

text \<open>Lines 278 to 287 of \<^verbatim>\<open>__init__\<close>; the fields of the image are not yet set.\<close>

definition init :: "args \<Rightarrow> untiler" where
  "init a =
     (let self = \<lparr>ext = ''jpg'', store = args_store a, out = args_out a,
                   nodownload = args_nodownload a, nthreads = args_nthreads a,
                   imageDir = [], tileDir = NoDirectory,
                   maxWidth = 0, maxHeight = 0, tileSize = 0, levels = [],
                   maxZoom = 0, zoomLevel = 0, width = 0, height = 0,
                   maxxTiles = 0, maxyTiles = 0, xTiles = 0, yTiles = 0,
                   log_records = []\<rparr>
      in if nodownload self then self\<lparr>store := True\<rparr> else self)"

text \<open>\<^verbatim>\<open>setupDirectory(destination)\<close>: \<open>StoreRoot destination\<close> stands for the
  directory named after the destination without its extension.\<close>

definition setupDirectory :: "string \<Rightarrow> untiler \<Rightarrow> untiler" where
  "setupDirectory destination self =
     (if store self then self\<lparr>tileDir := StoreRoot destination\<rparr>
      else self\<lparr>tileDir := TempDir\<rparr>)"

text \<open>Lines 331 to 340: the body of the loop over the images, for a base directory
  \<open>dir\<close> whose \<^verbatim>\<open>ImageProperties.xml\<close> gave \<open>content\<close>.\<close>

definition dezoomify_image ::
  "untiler \<Rightarrow> args \<Rightarrow> string \<Rightarrow> image_properties \<Rightarrow> network \<Rightarrow> tool \<Rightarrow> string
     \<Rightarrow> (error + image_run) option" where
  "dezoomify_image self a dir content net jpegtran destination =
     (case getProperties (self\<lparr>imageDir := dir\<rparr>) content (args_zoomLevel a) of
        None \<Rightarrow> None
      | Some (Inl e) \<Rightarrow> Some (Inl e)
      | Some (Inr self1) \<Rightarrow>
          Some (getImage (setupDirectory destination self1) net jpegtran destination))"

section \<open>Example inputs\<close>

text \<open>A command line without options, with one download thread.\<close>

definition example_args :: args where
  "example_args = \<lparr>args_out = ''out.jpg'', args_store = False, args_nodownload = False,
                    args_nthreads = 1, args_zoomLevel = NotGiven\<rparr>"

text \<open>The properties quoted in the comment of \<^verbatim>\<open>getProperties\<close>, a small image of
  three by two tiles, a large square image, and a flat image.\<close>

definition source_image :: image_properties where
  "source_image = \<lparr>WIDTH = Some 2679, HEIGHT = Some 4000, TILESIZE = Some 256\<rparr>"

definition small_image :: image_properties where
  "small_image = \<lparr>WIDTH = Some 600, HEIGHT = Some 300, TILESIZE = Some 256\<rparr>"

definition large_image :: image_properties where
  "large_image = \<lparr>WIDTH = Some 16384, HEIGHT = Some 16384, TILESIZE = Some 256\<rparr>"

definition flat_image :: image_properties where
  "flat_image = \<lparr>WIDTH = Some 1000, HEIGHT = Some 1, TILESIZE = Some 256\<rparr>"

section \<open>What a successful \<^verbatim>\<open>getProperties\<close> has done\<close>

lemma level_size_Inr:
  assumes "level_size s = Inr s'"
  shows "\<exists>fin cur. py_index (levels s) (- 1) = Inr fin \<and>
           py_index (levels s) (zoomLevel s) = Inr cur \<and>
           s' = s\<lparr>width := of_int (maxWidth s) / pow2 (maxZoom s - zoomLevel s - 1),
                   height := of_int (maxHeight s) / pow2 (maxZoom s - zoomLevel s - 1),
                   maxxTiles := fst fin, maxyTiles := snd fin,
                   xTiles := fst cur, yTiles := snd cur\<rparr>"
    and "levels s \<noteq> []"
  using assms
  by (auto simp: level_size_def py_index_def Let_def split: sum.splits if_splits)

lemma level_size_ok:
  assumes "levels s \<noteq> []" "0 \<le> zoomLevel s" "zoomLevel s < int (length (levels s))"
  shows "\<exists>s'. level_size s = Inr s'"
  using assms by (auto simp: level_size_def py_index_def Let_def split: sum.splits)

lemma getProperties_Some_Inr:
  assumes "getProperties self content arg = Some (Inr s)"
  obtains w h t self1 self2 where
    "WIDTH content = Some w" "HEIGHT content = Some h" "TILESIZE content = Some t"
    "getZoomLevels (self\<lparr>maxWidth := int w, maxHeight := int h, tileSize := int t\<rparr>) = Some (Inr self1)"
    "requested_zoomLevel arg (self1\<lparr>maxZoom := int (length (levels self1))\<rparr>) = Inr self2"
    "level_size self2 = Inr s"
  using assms unfolding getProperties_def
  by (auto split: option.splits sum.splits)

lemma getZoomLevels_Inr:
  assumes "getZoomLevels self = Some (Inr self')"
  shows "\<exists>lvls. getZoomLevels_loop (tileSize self) (maxWidth self) (maxHeight self) [] = Some (Inr lvls) \<and> self' = self\<lparr>levels := rev lvls\<rparr>"
  using assms unfolding getZoomLevels_def by (auto split: option.splits sum.splits)

lemma requested_zoomLevel_Inr:
  assumes "requested_zoomLevel arg self = Inr s"
  shows "s = self\<lparr>zoomLevel := zoomLevel s, log_records := log_records s\<rparr>"
  using assms unfolding requested_zoomLevel_def log_warning_def
  by (auto split: zoom_arg.splits if_splits)

lemma requested_zoomLevel_frame:
  assumes "requested_zoomLevel arg self = Inr s"
  shows "levels s = levels self" "maxZoom s = maxZoom self" "maxWidth s = maxWidth self"
    "maxHeight s = maxHeight self" "tileSize s = tileSize self" "store s = store self"
    "nodownload s = nodownload self"
  using assms unfolding requested_zoomLevel_def log_warning_def
  by (auto split: zoom_arg.splits if_splits)

lemma requested_zoomLevel_range:
  assumes "requested_zoomLevel arg self = Inr s" "1 \<le> maxZoom self"
  shows "0 \<le> zoomLevel s" "zoomLevel s < maxZoom self"
  using assms unfolding requested_zoomLevel_def log_warning_def
  by (auto split: zoom_arg.splits if_splits)

lemma level_size_frame:
  assumes "level_size self = Inr s"
  shows "levels s = levels self" "maxZoom s = maxZoom self" "maxWidth s = maxWidth self"
    "maxHeight s = maxHeight self" "tileSize s = tileSize self" "store s = store self"
    "nodownload s = nodownload self" "zoomLevel s = zoomLevel self"
    "log_records s = log_records self"
    "width s = of_int (maxWidth self) / pow2 (maxZoom self - zoomLevel self - 1)"
    "height s = of_int (maxHeight self) / pow2 (maxZoom self - zoomLevel self - 1)"
  using level_size_Inr(1)[OF assms] by auto

lemma getZoomLevels_frame:
  assumes "getZoomLevels self = Some (Inr s)"
  shows "maxWidth s = maxWidth self" "maxHeight s = maxHeight self" "tileSize s = tileSize self"
    "store s = store self" "nodownload s = nodownload self" "log_records s = log_records self"
  using getZoomLevels_Inr[OF assms] by auto

lemma getProperties_in_range:
  assumes "getProperties self content arg = Some (Inr s)"
  shows "0 \<le> zoomLevel s" "zoomLevel s < maxZoom s" "maxZoom s = int (length (levels s))"
    "levels s \<noteq> []" "0 \<le> maxWidth s" "0 \<le> maxHeight s" "0 \<le> tileSize s"
    "store s = store self" "nodownload s = nodownload self"
proof -
  from assms obtain w h t self1 self2 where
    z: "getZoomLevels (self\<lparr>maxWidth := int w, maxHeight := int h, tileSize := int t\<rparr>) = Some (Inr self1)"
    and r: "requested_zoomLevel arg (self1\<lparr>maxZoom := int (length (levels self1))\<rparr>) = Inr self2"
    and l: "level_size self2 = Inr s"
    by (rule getProperties_Some_Inr)
  note f1 = getZoomLevels_frame[OF z]
  note f2 = requested_zoomLevel_frame[OF r]
  note f3 = level_size_frame[OF l]
  have ne: "levels self2 \<noteq> []" by (rule level_size_Inr(2)[OF l])
  then have one: "1 \<le> maxZoom (self1\<lparr>maxZoom := int (length (levels self1))\<rparr>)"
    using f2(1) by (cases "levels self1") simp_all
  note rg = requested_zoomLevel_range[OF r one]
  show "0 \<le> zoomLevel s" using rg f3 by simp
  show "zoomLevel s < maxZoom s" using rg f3 f2 by simp
  show "maxZoom s = int (length (levels s))" using f3 f2 by simp
  show "levels s \<noteq> []" using ne f3 by simp
  show "0 \<le> maxWidth s" using f1 f2 f3 by simp
  show "0 \<le> maxHeight s" using f1 f2 f3 by simp
  show "0 \<le> tileSize s" using f1 f2 f3 by simp
  show "store s = store self" using f1 f2 f3 by simp
  show "nodownload s = nodownload self" using f1 f2 f3 by simp
qed

section \<open>Cleanup of a run without download\<close>

text \<open>
  C10. A run started with \<^verbatim>\<open>-x\<close> (nodownload) has the store flag set by \<^verbatim>\<open>__init__\<close>;
  nothing on the way to \<^verbatim>\<open>getImage\<close> clears it, so the cleanup of such a run removes the
  two temporary images and nothing else: the tile directory stays.
\<close>

theorem nodownload_keeps_tile_directory:
  assumes "args_nodownload a"
      and "dezoomify_image (init a) a dir content net jpegtran destination = Some (Inr r)"
  shows "store (init a) \<and> cleanup r = [Unlink (TmpImg 0), Unlink (TmpImg 1)] \<and>
         (\<forall>d. Rmtree d \<notin> set (cleanup r)) \<and>
         (\<forall>d col row e. Unlink (LocalTile d col row e) \<notin> set (cleanup r))"
proof -
  have st: "store (init a)" "nodownload (init a)"
    using assms(1) by (simp_all add: init_def Let_def)
  from assms(2) obtain self1 where
    p: "getProperties ((init a)\<lparr>imageDir := dir\<rparr>) content (args_zoomLevel a) = Some (Inr self1)"
    and g: "getImage (setupDirectory destination self1) net jpegtran destination = Inr r"
    unfolding dezoomify_image_def by (auto split: option.splits sum.splits)
  have "store self1" using getProperties_in_range(8)[OF p] st by simp
  then have s2: "store (setupDirectory destination self1)"
    by (simp add: setupDirectory_def)
  have "cleanup r = [Unlink (TmpImg 0), Unlink (TmpImg 1)]"
    using g s2 unfolding getImage_def by (auto simp: Let_def split: sum.splits)
  then show ?thesis using st by simp
qed

theorem nodownload_keeps_tile_directory_witness:
  "args_nodownload (example_args\<lparr>args_nodownload := True\<rparr>) \<and>
   map_option (map_sum id cleanup)
     (dezoomify_image (init (example_args\<lparr>args_nodownload := True\<rparr>))
        (example_args\<lparr>args_nodownload := True\<rparr>) ''http://host/img'' small_image
        (\<lambda>url. Fetched) (\<lambda>before cmd. 0) ''out.jpg'')
     = Some (Inr [Unlink (TmpImg 0), Unlink (TmpImg 1)])"
proof -
  let ?a = "example_args\<lparr>args_nodownload := True\<rparr>"
  let ?run = "dezoomify_image (init ?a) ?a ''http://host/img'' small_image
        (\<lambda>url. Fetched) (\<lambda>before cmd. 0) ''out.jpg''"
  have a: "args_nodownload ?a" by simp
  have "(case ?run of Some (Inr r) \<Rightarrow> True | _ \<Rightarrow> False)" by code_simp
  then obtain r where r: "?run = Some (Inr r)"
    by (auto split: option.splits sum.splits)
  from nodownload_keeps_tile_directory[OF a r] have "cleanup r = [Unlink (TmpImg 0), Unlink (TmpImg 1)]"
    by simp
  with a r show ?thesis by simp
qed

end
